theory Spec2Isabelle
  imports Main
begin

section \<open>Token decoder (src/server/auth/jwt.ts)\<close>

text \<open>
  A header value of \<^verbatim>\<open>Record<string, string | string[]>\<close>: either one string or an
  array of strings. \<^verbatim>\<open>typeof v === 'string'\<close> holds for the first constructor only.
\<close>

datatype header_value = HString string | HArray "string list"

type_synonym header_record = "string \<rightharpoonup> header_value"

text \<open>
  \<^verbatim>\<open>interface TokenPayload extends JwtPayload { userId: string; email?: string;
  permissions?: string[] }\<close>. The payload is whatever the verified token carries (the
  source only casts it), so \<open>userId\<close> may be missing at run time as well.
\<close>

record TokenPayload =
  userId :: "string option"
  email :: "string option"
  permissions :: "string list option"

text \<open>The exceptions \<^verbatim>\<open>jwt.verify\<close> of the jsonwebtoken library throws.\<close>

datatype jwt_error = JsonWebTokenError | TokenExpiredError | NotBeforeError

text \<open>
  What the decoder takes from outside the repository: the library function
  \<^verbatim>\<open>jwt.verify(token, secret)\<close>, which returns the payload or throws, and the
  environment variable \<^verbatim>\<open>process.env.JWT_SECRET\<close>, which may be unset.
\<close>

record environment =
  jwt_verify :: "string \<Rightarrow> string \<Rightarrow> jwt_error + TokenPayload"
  JWT_SECRET :: "string option"

text \<open>
  \<^verbatim>\<open>String.prototype.split(sep)\<close> for a one-character separator: the string is cut at
  every occurrence of the separator, empty pieces are kept, and the empty string
  gives one empty piece.
\<close>

fun split_js :: "char \<Rightarrow> string \<Rightarrow> string list" where
  "split_js sep [] = [[]]"
| "split_js sep (c # cs) =
     (if c = sep then [] # split_js sep cs
      else (case split_js sep cs of
              [] \<Rightarrow> [[c]]
            | p # ps \<Rightarrow> (c # p) # ps))"

text \<open>\<^verbatim>\<open>process.env.JWT_SECRET || 'your-secret-key'\<close>: unset and empty are both falsy.\<close>

definition secret :: "environment \<Rightarrow> string" where
  "secret env =
     (case JWT_SECRET env of
        None \<Rightarrow> ''your-secret-key''
      | Some s \<Rightarrow> if s = [] then ''your-secret-key'' else s)"

text \<open>
  \<^verbatim>\<open>parseAuthHeader(authHeader?: string): TokenPayload | null\<close>. The argument is
  \<open>None\<close> for \<^verbatim>\<open>undefined\<close>; \<^verbatim>\<open>!authHeader\<close> also rejects the empty string. The
  \<^verbatim>\<open>try\<close>/\<^verbatim>\<open>catch\<close> around \<^verbatim>\<open>jwt.verify\<close> turns every exception into \<^verbatim>\<open>null\<close>.
\<close>

definition parseAuthHeader :: "environment \<Rightarrow> string option \<Rightarrow> TokenPayload option" where
  "parseAuthHeader env authHeader =
     (case authHeader of
        None \<Rightarrow> None
      | Some h \<Rightarrow>
          if h = [] then None
          else
            let parts = split_js (CHR '' '') h in
            if length parts \<noteq> 2 \<or> parts ! 0 \<noteq> ''Bearer'' then None
            else
              let token = parts ! 1 in
              (case jwt_verify env token (secret env) of
                 Inr payload \<Rightarrow> Some payload
               | Inl error \<Rightarrow> None))"

text \<open>
  \<^verbatim>\<open>extractUserId(headers?)\<close>: \<^verbatim>\<open>payload?.userId || null\<close> gives \<^verbatim>\<open>null\<close> for a
  missing payload, a missing \<open>userId\<close> and the empty string.
\<close>

definition extractUserId :: "environment \<Rightarrow> header_record option \<Rightarrow> string option" where
  "extractUserId env headers =
     (case headers of
        None \<Rightarrow> None
      | Some hs \<Rightarrow>
          (case hs ''authorization'' of
             Some (HString authHeader) \<Rightarrow>
               (case parseAuthHeader env (Some authHeader) of
                  None \<Rightarrow> None
                | Some payload \<Rightarrow>
                    (case userId payload of
                       None \<Rightarrow> None
                     | Some u \<Rightarrow> if u = [] then None else Some u))
           | _ \<Rightarrow> None))"

text \<open>
  \<^verbatim>\<open>extractPermissions(headers?)\<close>: \<^verbatim>\<open>payload?.permissions || []\<close>; an array, even an
  empty one, is truthy and is returned as it is.
\<close>

definition extractPermissions :: "environment \<Rightarrow> header_record option \<Rightarrow> string list" where
  "extractPermissions env headers =
     (case headers of
        None \<Rightarrow> []
      | Some hs \<Rightarrow>
          (case hs ''authorization'' of
             Some (HString authHeader) \<Rightarrow>
               (case parseAuthHeader env (Some authHeader) of
                  None \<Rightarrow> []
                | Some payload \<Rightarrow>
                    (case permissions payload of
                       None \<Rightarrow> []
                     | Some ps \<Rightarrow> ps))
           | _ \<Rightarrow> []))"

subsection \<open>A concrete environment for evaluation\<close>

text \<open>
  A stand-in for the jsonwebtoken library, used only to evaluate the definitions at
  concrete inputs: it accepts five tokens under the default secret and rejects
  everything else, an expired token with \<open>TokenExpiredError\<close>.
\<close>

definition sample_verify :: "string \<Rightarrow> string \<Rightarrow> jwt_error + TokenPayload" where
  "sample_verify token key =
     (if key \<noteq> ''your-secret-key'' then Inl JsonWebTokenError
      else if token = ''t-u1'' then
        Inr \<lparr>userId = Some ''u1'', email = None, permissions = Some [''user/create'']\<rparr>
      else if token = ''t-u2'' then
        Inr \<lparr>userId = Some ''u2'', email = None, permissions = None\<rparr>
      else if token = ''t-root'' then
        Inr \<lparr>userId = Some ''root'', email = None,
             permissions = Some [''user/create'', ''admin'']\<rparr>
      else if token = ''t-anon'' then
        Inr \<lparr>userId = Some [], email = None, permissions = Some [''user/create'']\<rparr>
      else if token = ''t-old'' then Inl TokenExpiredError
      else Inl JsonWebTokenError)"

definition sample_env :: environment where
  "sample_env = \<lparr>jwt_verify = sample_verify, JWT_SECRET = None\<rparr>"

section \<open>Procedures (src/server/auth/procedures.ts, both versions)\<close>

datatype trpc_code = UNAUTHORIZED | FORBIDDEN | BAD_REQUEST | NOT_FOUND

text \<open>
  Everything a call can fail with: a \<^verbatim>\<open>TRPCError\<close> with its code and message, the
  \<^verbatim>\<open>TypeError\<close> the JavaScript runtime throws, the two failures of the
  permissions-guard library, and any other error of business code.
\<close>

datatype failure =
    TRPCError trpc_code string
  | TypeError
  | GuardUnauthenticated
  | GuardAccessDenied "string list"
  | BusinessError string

text \<open>
  What \<^verbatim>\<open>ctx.headers\<close> holds at run time when it is not \<^verbatim>\<open>undefined\<close>. The
  \<^verbatim>\<open>createContext\<close> written for the Fetch adapter passes \<^verbatim>\<open>opts?.req?.headers\<close>, a
  Fetch \<^verbatim>\<open>Headers\<close> object: an iterable of name/value entries, here the list of its
  entries in iteration order. The \<^verbatim>\<open>createContext\<close> written for Express
  (\<^verbatim>\<open>req?.headers || {}\<close>, typed \<^verbatim>\<open>any\<close>) and the Next handler
  (\<^verbatim>\<open>req.headers as any\<close>) pass the header object of Node: a plain object with the
  headers as its properties, which is not iterable.
\<close>

datatype js_headers =
    Iterable "(string \<times> header_value) list"
  | PlainObject "(string \<times> header_value) list"

text \<open>
  The context of a call. \<open>ctx_headers\<close> is \<^verbatim>\<open>ctx.headers\<close>, \<open>None\<close> for
  \<^verbatim>\<open>undefined\<close>. The other fields of the context (\<^verbatim>\<open>req\<close>, \<^verbatim>\<open>services\<close>) are the
  extension part of the record; the spread \<^verbatim>\<open>...ctx\<close> keeps them.
\<close>

record Context =
  ctx_headers :: "js_headers option"
  ctx_userId :: "string option"
  ctx_permissions :: "string list option"

text \<open>\<^verbatim>\<open>Object.fromEntries(iterable)\<close>: a later entry overwrites an earlier one.\<close>

definition fromEntries :: "(string \<times> header_value) list \<Rightarrow> header_record" where
  "fromEntries entries = fold (\<lambda>(k, v) obj. obj(k \<mapsto> v)) entries Map.empty"

text \<open>
  \<^verbatim>\<open>ctx.headers ? Object.fromEntries(ctx.headers) : undefined\<close>. Every object is
  truthy, and \<^verbatim>\<open>Object.fromEntries\<close> throws a \<^verbatim>\<open>TypeError\<close> on an argument that is
  not iterable. Each middleware evaluates this expression before anything else; it
  has no \<^verbatim>\<open>try\<close>, so the exception ends the middleware.
\<close>

definition request_headers :: "'z Context_scheme \<Rightarrow> failure + header_record option" where
  "request_headers ctx =
     (case ctx_headers ctx of
        None \<Rightarrow> Inr None
      | Some (Iterable entries) \<Rightarrow> Inr (Some (fromEntries entries))
      | Some (PlainObject properties) \<Rightarrow> Inl TypeError)"

text \<open>
  The ambient permission context: what \<^verbatim>\<open>PermissionsGuard.runWithPermissions\<close> stores
  for the call chain of its callback.
\<close>

record AmbientContext =
  principalId :: string
  granted :: "string list"

text \<open>
  A handler (\<^verbatim>\<open>next\<close>) is given the ambient context that is current while it runs
  (\<open>None\<close> outside every scope), the context object, and the state of the services
  it may change; it returns its outcome, a value or an error, and the new state.
\<close>

type_synonym ('z, 's, 'r) handler =
  "AmbientContext option \<Rightarrow> 'z Context_scheme \<Rightarrow> 's \<Rightarrow> (failure + 'r) \<times> 's"

text \<open>
  Modelled from the spec: \<^verbatim>\<open>PermissionsGuard.runWithPermissions(permissions, userId,
  callback)\<close> belongs to the library @david.uhlir/permissions-guard, which is not part of
  the repository. Section 4.2 of the specification: \<open>establish\<close> runs the callback such
  that, for its whole dynamic extent, \<open>current()\<close> returns the principal and the
  permissions given, shadowing an outer context for the nested scope only. The
  callback therefore receives the context that is current while it runs.
\<close>

definition runWithPermissions ::
  "string list \<Rightarrow> string \<Rightarrow> (AmbientContext option \<Rightarrow> 'a) \<Rightarrow> 'a" where
  "runWithPermissions perms uid callback =
     callback (Some \<lparr>principalId = uid, granted = perms\<rparr>)"

definition no_token :: failure where
  "no_token = TRPCError UNAUTHORIZED ''No authentication token provided''"

text \<open>
  First version of the file: \<^verbatim>\<open>protectedProcedure\<close> checks the token and adds
  \<open>userId\<close> to the context object; it does not call \<^verbatim>\<open>runWithPermissions\<close>, so the
  handler runs in whatever ambient context the middleware itself runs in.
\<close>

definition protectedProcedure_plain ::
  "environment \<Rightarrow> AmbientContext option \<Rightarrow> 'z Context_scheme \<Rightarrow> ('z, 's, 'r) handler
     \<Rightarrow> 's \<Rightarrow> (failure + 'r) \<times> 's" where
  "protectedProcedure_plain env current ctx next s =
     (case request_headers ctx of
        Inl thrown \<Rightarrow> (Inl thrown, s)
      | Inr hdrs \<Rightarrow>
          (case extractUserId env hdrs of
             None \<Rightarrow> (Inl no_token, s)
           | Some uid \<Rightarrow>
               if uid = [] then (Inl no_token, s)
               else next current (ctx\<lparr>ctx_userId := Some uid\<rparr>) s))"

text \<open>\<^verbatim>\<open>Array.prototype.join(sep)\<close> on an array of strings.\<close>

fun join :: "string \<Rightarrow> string list \<Rightarrow> string" where
  "join sep [] = []"
| "join sep [x] = x"
| "join sep (x # y # ys) = x @ sep @ join sep (y # ys)"

text \<open>
  \<^verbatim>\<open>requiredPermissions.every((perm) => permissions.includes(perm))\<close>
\<close>

definition hasPermission :: "string list \<Rightarrow> string list \<Rightarrow> bool" where
  "hasPermission requiredPermissions perms =
     list_all (\<lambda>perm. perm \<in> set perms) requiredPermissions"

text \<open>
  The permission check of \<^verbatim>\<open>permissionProcedure\<close> (the statements between the token
  check and the call of \<^verbatim>\<open>runWithPermissions\<close>), as a function of the required and
  the granted permissions: it throws \<open>FORBIDDEN\<close> or returns normally.
\<close>

definition permissionGuard :: "string list \<Rightarrow> string list \<Rightarrow> failure + unit" where
  "permissionGuard requiredPermissions perms =
     (if \<not> hasPermission requiredPermissions perms then
        Inl (TRPCError FORBIDDEN
               (''Missing required permissions: '' @ join '', '' requiredPermissions))
      else Inr ())"

text \<open>
  First version of the file: \<^verbatim>\<open>permissionProcedure(requiredPermissions)\<close> checks the
  token, then the permissions, and runs the handler inside \<^verbatim>\<open>runWithPermissions\<close>.
\<close>

definition permissionProcedure ::
  "environment \<Rightarrow> string list \<Rightarrow> AmbientContext option \<Rightarrow> 'z Context_scheme
     \<Rightarrow> ('z, 's, 'r) handler \<Rightarrow> 's \<Rightarrow> (failure + 'r) \<times> 's" where
  "permissionProcedure env requiredPermissions current ctx next s =
     (case request_headers ctx of
        Inl thrown \<Rightarrow> (Inl thrown, s)
      | Inr hdrs \<Rightarrow>
          (let uidOpt = extractUserId env hdrs;
               perms = extractPermissions env hdrs
           in case uidOpt of
                None \<Rightarrow> (Inl no_token, s)
              | Some uid \<Rightarrow>
                  if uid = [] then (Inl no_token, s)
                  else
                    (case permissionGuard requiredPermissions perms of
                       Inl err \<Rightarrow> (Inl err, s)
                     | Inr _ \<Rightarrow>
                         runWithPermissions perms uid
                           (\<lambda>cur. next cur
                              (ctx\<lparr>ctx_userId := Some uid,
                                   ctx_permissions := Some perms\<rparr>) s))))"

text \<open>
  Second version of the file: \<^verbatim>\<open>protectedProcedure\<close> checks the token and runs the
  handler inside \<^verbatim>\<open>runWithPermissions\<close>; permissions are not checked here.
\<close>

definition protectedProcedure ::
  "environment \<Rightarrow> AmbientContext option \<Rightarrow> 'z Context_scheme \<Rightarrow> ('z, 's, 'r) handler
     \<Rightarrow> 's \<Rightarrow> (failure + 'r) \<times> 's" where
  "protectedProcedure env current ctx next s =
     (case request_headers ctx of
        Inl thrown \<Rightarrow> (Inl thrown, s)
      | Inr hdrs \<Rightarrow>
          (let uidOpt = extractUserId env hdrs;
               perms = extractPermissions env hdrs
           in case uidOpt of
                None \<Rightarrow> (Inl no_token, s)
              | Some uid \<Rightarrow>
                  if uid = [] then (Inl no_token, s)
                  else
                    runWithPermissions perms uid
                      (\<lambda>cur. next cur
                         (ctx\<lparr>ctx_userId := Some uid,
                              ctx_permissions := Some perms\<rparr>) s)))"

section \<open>User data access object (src/server/services/user.dao.ts)\<close>

record User =
  user_id :: string
  user_name :: string
  user_email :: string

text \<open>\<^verbatim>\<open>data: { name?: string; email?: string }\<close> of \<^verbatim>\<open>update\<close>.\<close>

record UserData =
  data_name :: "string option"
  data_email :: "string option"

text \<open>
  The Prisma client of \<^verbatim>\<open>DatabaseService\<close> is outside the repository: its five
  operations on the user table are parameters. Each takes the database, may fail, and
  returns the database it leaves behind.
\<close>

record 'db prisma_user =
  db_create :: "string \<Rightarrow> string \<Rightarrow> 'db \<Rightarrow> (failure + User) \<times> 'db"
  db_findUnique :: "string \<Rightarrow> 'db \<Rightarrow> (failure + User option) \<times> 'db"
  db_findMany :: "'db \<Rightarrow> (failure + User list) \<times> 'db"
  db_update :: "string \<Rightarrow> UserData \<Rightarrow> 'db \<Rightarrow> (failure + User) \<times> 'db"
  db_delete :: "string \<Rightarrow> 'db \<Rightarrow> (failure + User) \<times> 'db"

text \<open>
  \<^verbatim>\<open>PermissionsGuard.checkRequiredPermissions\<close> is a function of the same library; the
  methods below take it as the parameter \<open>guard\<close>, applied to the ambient context of
  the call and the required permissions.
\<close>

type_synonym guard = "AmbientContext option \<Rightarrow> string list \<Rightarrow> failure + unit"

definition UserDAO_create ::
  "guard \<Rightarrow> 'db prisma_user \<Rightarrow> AmbientContext option \<Rightarrow> string \<Rightarrow> string \<Rightarrow> 'db
     \<Rightarrow> (failure + User) \<times> 'db" where
  "UserDAO_create guard prisma current uname uemail db =
     (case guard current [''user/create''] of
        Inl err \<Rightarrow> (Inl err, db)
      | Inr _ \<Rightarrow> db_create prisma uname uemail db)"

definition UserDAO_findAll ::
  "guard \<Rightarrow> 'db prisma_user \<Rightarrow> AmbientContext option \<Rightarrow> 'db
     \<Rightarrow> (failure + User list) \<times> 'db" where
  "UserDAO_findAll guard prisma current db =
     (case guard current [''user/read''] of
        Inl err \<Rightarrow> (Inl err, db)
      | Inr _ \<Rightarrow> db_findMany prisma db)"

definition UserDAO_update ::
  "guard \<Rightarrow> 'db prisma_user \<Rightarrow> AmbientContext option \<Rightarrow> string \<Rightarrow> UserData \<Rightarrow> 'db
     \<Rightarrow> (failure + User) \<times> 'db" where
  "UserDAO_update guard prisma current ident data db =
     (case guard current [''user/write''] of
        Inl err \<Rightarrow> (Inl err, db)
      | Inr _ \<Rightarrow> db_update prisma ident data db)"

definition UserDAO_delete ::
  "guard \<Rightarrow> 'db prisma_user \<Rightarrow> AmbientContext option \<Rightarrow> string \<Rightarrow> 'db
     \<Rightarrow> (failure + User option) \<times> 'db" where
  "UserDAO_delete guard prisma current ident db =
     (case guard current [''user/delete''] of
        Inl err \<Rightarrow> (Inl err, db)
      | Inr _ \<Rightarrow>
          (case db_findUnique prisma ident db of
             (Inl err, db1) \<Rightarrow> (Inl err, db1)
           | (Inr None, db1) \<Rightarrow> (Inr None, db1)
           | (Inr (Some user), db1) \<Rightarrow>
               (case db_delete prisma ident db1 of
                  (Inl err, db2) \<Rightarrow> (Inl err, db2)
                | (Inr deleted, db2) \<Rightarrow> (Inr (Some deleted), db2))))"

text \<open>
  Modelled from the spec: \<^verbatim>\<open>PermissionsGuard.checkRequiredPermissions\<close> is not part of
  the repository. Section 4.4 of the specification: read the current context; if it is
  absent, signal an unauthenticated failure; if its permission set does not include
  every required string, signal an access-denied failure naming the missing
  permissions; otherwise return normally.
\<close>

definition checkRequiredPermissions :: guard where
  "checkRequiredPermissions current requiredPermissions =
     (case current of
        None \<Rightarrow> Inl GuardUnauthenticated
      | Some c \<Rightarrow>
          (let missing = filter (\<lambda>p. p \<notin> set (granted c)) requiredPermissions
           in if missing = [] then Inr () else Inl (GuardAccessDenied missing)))"

subsection \<open>A concrete database for evaluation\<close>

text \<open>
  A stand-in for the Prisma client, used only to evaluate the methods at concrete
  inputs: the user table is a list of rows.
\<close>

definition table_prisma :: "User list prisma_user" where
  "table_prisma =
     \<lparr>db_create = (\<lambda>uname uemail db.
          (let u = \<lparr>user_id = uname, user_name = uname, user_email = uemail\<rparr>
           in (Inr u, db @ [u]))),
      db_findUnique = (\<lambda>ident db. (Inr (find (\<lambda>u. user_id u = ident) db), db)),
      db_findMany = (\<lambda>db. (Inr db, db)),
      db_update = (\<lambda>ident data db.
          (case find (\<lambda>u. user_id u = ident) db of
             None \<Rightarrow> (Inl (BusinessError ''Record to update not found''), db)
           | Some u \<Rightarrow>
               (let u' = u\<lparr>user_name := (case data_name data of None \<Rightarrow> user_name u | Some n \<Rightarrow> n),
                           user_email := (case data_email data of None \<Rightarrow> user_email u | Some e \<Rightarrow> e)\<rparr>
                in (Inr u', map (\<lambda>v. if user_id v = ident then u' else v) db)))),
      db_delete = (\<lambda>ident db.
          (case find (\<lambda>u. user_id u = ident) db of
             None \<Rightarrow> (Inl (BusinessError ''Record to delete does not exist''), db)
           | Some u \<Rightarrow> (Inr u, filter (\<lambda>v. user_id v \<noteq> ident) db)))\<rparr>"

section \<open>Vocabulary of the specification\<close>

text \<open>
  The required permissions that the granted set lacks, in the order of the
  requirement.
\<close>

definition missing_permissions :: "string list \<Rightarrow> string list \<Rightarrow> string list" where
  "missing_permissions requiredPermissions perms =
     filter (\<lambda>p. p \<notin> set perms) requiredPermissions"

text \<open>A message names a permission when the permission string occurs in it.\<close>

fun starts_with :: "string \<Rightarrow> string \<Rightarrow> bool" where
  "starts_with s [] = True"
| "starts_with [] (c # cs) = False"
| "starts_with (x # xs) (c # cs) = (x = c \<and> starts_with xs cs)"

fun names :: "string \<Rightarrow> string \<Rightarrow> bool" where
  "names [] p = (p = [])"
| "names (x # xs) p = (starts_with (x # xs) p \<or> names xs p)"




section \<open>Concrete inputs for evaluation\<close>

text \<open>A call whose only header is \<^verbatim>\<open>authorization: Bearer <token>\<close>.\<close>

definition sample_ctx :: "string \<Rightarrow> Context" where
  "sample_ctx token =
     \<lparr>ctx_headers = Some (Iterable [(''authorization'', HString (''Bearer '' @ token))]),
      ctx_userId = None, ctx_permissions = None\<rparr>"

text \<open>The header record \<^verbatim>\<open>Object.fromEntries\<close> makes of the headers of that call.\<close>

definition sample_headers :: "string \<Rightarrow> header_record option" where
  "sample_headers token =
     Some (fromEntries [(''authorization'', HString (''Bearer '' @ token))])"

text \<open>A call that carries no \<^verbatim>\<open>authorization\<close> header.\<close>

definition bare_ctx :: Context where
  "bare_ctx = \<lparr>ctx_headers = Some (Iterable [(''host'', HString ''localhost'')]),
      ctx_userId = None, ctx_permissions = None\<rparr>"

text \<open>
  The context the Express \<^verbatim>\<open>createContext\<close> builds for a request without an
  \<^verbatim>\<open>Authorization\<close> header: \<^verbatim>\<open>req.headers\<close>, a plain object.
\<close>

definition express_ctx :: Context where
  "express_ctx = \<lparr>ctx_headers = Some (PlainObject [(''host'', HString ''localhost'')]),
      ctx_userId = None, ctx_permissions = None\<rparr>"


text \<open>A handler that changes nothing and returns the ambient context it runs in.\<close>

definition report_ambient :: "(unit, unit, AmbientContext option) handler" where
  "report_ambient current ctx s = (Inr current, s)"

text \<open>A principal who may only read, and one row of the user table.\<close>

definition reader :: AmbientContext where
  "reader = \<lparr>principalId = ''u1'', granted = [''user/read'']\<rparr>"

definition bob :: User where
  "bob = \<lparr>user_id = ''bob'', user_name = ''bob'', user_email = ''bob@example.com''\<rparr>"

section \<open>Properties of the token decoder\<close>




lemma parseAuthHeader_Some_iff:
  "parseAuthHeader env authHeader = Some payload \<longleftrightarrow>
     (\<exists>h token. authHeader = Some h \<and> split_js (CHR '' '') h = [''Bearer'', token]
        \<and> jwt_verify env token (secret env) = Inr payload)"
proof
  assume ok: "parseAuthHeader env authHeader = Some payload"
  then obtain h where h: "authHeader = Some h"
    by (cases authHeader) (auto simp: parseAuthHeader_def)
  let ?parts = "split_js (CHR '' '') h"
  from ok h have len: "length ?parts = 2" and first: "?parts ! 0 = ''Bearer''"
    by (auto simp: parseAuthHeader_def Let_def split: if_splits)
  from len obtain a b where ab: "?parts = [a, b]"
    by (cases ?parts; cases "tl ?parts") auto
  with first have a: "a = ''Bearer''" by simp
  from ok h ab a have "jwt_verify env b (secret env) = Inr payload"
    by (auto simp: parseAuthHeader_def Let_def split: if_splits sum.splits)
  with h ab a show "\<exists>h token. authHeader = Some h
      \<and> split_js (CHR '' '') h = [''Bearer'', token]
      \<and> jwt_verify env token (secret env) = Inr payload"
    by blast
next
  assume "\<exists>h token. authHeader = Some h \<and> split_js (CHR '' '') h = [''Bearer'', token]
      \<and> jwt_verify env token (secret env) = Inr payload"
  then obtain h token where h: "authHeader = Some h"
    and parts: "split_js (CHR '' '') h = [''Bearer'', token]"
    and v: "jwt_verify env token (secret env) = Inr payload"
    by blast
  from parts have "h \<noteq> []" by auto
  with h parts v show "parseAuthHeader env authHeader = Some payload"
    by (simp add: parseAuthHeader_def)
qed

section \<open>Properties of the procedures\<close>

lemma hasPermission_iff: "hasPermission req perms \<longleftrightarrow> set req \<subseteq> set perms"
  by (auto simp: hasPermission_def list_all_iff)

lemma extractUserId_nonempty: "extractUserId env hdrs = Some uid \<Longrightarrow> uid \<noteq> []"
  by (auto simp: extractUserId_def split: option.splits header_value.splits if_splits)

lemma starts_with_append: "starts_with (p @ t) p"
  by (induction p) auto

lemma names_append: "names (a @ p @ b) p"
proof (induction a)
  case Nil
  show ?case by (cases "p @ b") (use starts_with_append [of p b] in auto)
next
  case (Cons x xs)
  then show ?case by simp
qed

lemma join_contains: "p \<in> set xs \<Longrightarrow> \<exists>a b. join sep xs = a @ p @ b"
proof (induction sep xs rule: join.induct)
  case (1 sep)
  then show ?case by simp
next
  case (2 sep x)
  then have "join sep [x] = [] @ p @ []" by simp
  then show ?case by blast
next
  case (3 sep x y ys)
  show ?case
  proof (cases "p = x")
    case True
    then have "join sep (x # y # ys) = [] @ p @ (sep @ join sep (y # ys))" by simp
    then show ?thesis by blast
  next
    case False
    with 3 obtain a b where "join sep (y # ys) = a @ p @ b" by auto
    then have "join sep (x # y # ys) = (x @ sep @ a) @ p @ b" by simp
    then show ?thesis by blast
  qed
qed

lemma names_join: "p \<in> set xs \<Longrightarrow> names (pre @ join sep xs) p"
proof -
  assume "p \<in> set xs"
  then obtain a b where "join sep xs = a @ p @ b" using join_contains by blast
  then have "pre @ join sep xs = (pre @ a) @ p @ b" by simp
  then show ?thesis using names_append [of "pre @ a" p b] by simp
qed

lemma request_headers_throws:
  assumes "request_headers ctx = Inl thrown"
  shows "protectedProcedure env current ctx next s = (Inl thrown, s)"
    and "protectedProcedure_plain env current ctx next s = (Inl thrown, s)"
    and "permissionProcedure env req current ctx next s = (Inl thrown, s)"
  using assms
  by (simp_all add: protectedProcedure_def protectedProcedure_plain_def permissionProcedure_def)

lemma extractUserId_None_middlewares:
  assumes "request_headers ctx = Inr hdrs" and "extractUserId env hdrs = None"
  shows "protectedProcedure env current ctx next s = (Inl no_token, s)"
    and "protectedProcedure_plain env current ctx next s = (Inl no_token, s)"
    and "permissionProcedure env req current ctx next s = (Inl no_token, s)"
  using assms
  by (simp_all add: protectedProcedure_def protectedProcedure_plain_def permissionProcedure_def)

lemma protectedProcedure_authenticated:
  assumes "request_headers ctx = Inr hdrs" and "extractUserId env hdrs = Some uid"
  shows "protectedProcedure env current ctx next s =
     next (Some \<lparr>principalId = uid, granted = extractPermissions env hdrs\<rparr>)
       (ctx\<lparr>ctx_userId := Some uid, ctx_permissions := Some (extractPermissions env hdrs)\<rparr>) s"
  using assms extractUserId_nonempty [OF assms(2)]
  by (simp add: protectedProcedure_def runWithPermissions_def Let_def)

lemma protectedProcedure_plain_authenticated:
  assumes "request_headers ctx = Inr hdrs" and "extractUserId env hdrs = Some uid"
  shows "protectedProcedure_plain env current ctx next s =
     next current (ctx\<lparr>ctx_userId := Some uid\<rparr>) s"
  using assms extractUserId_nonempty [OF assms(2)]
  by (simp add: protectedProcedure_plain_def)

lemma permissionProcedure_authenticated:
  assumes "request_headers ctx = Inr hdrs" and "extractUserId env hdrs = Some uid"
  shows "permissionProcedure env req current ctx next s =
     (if set req \<subseteq> set (extractPermissions env hdrs) then
        next (Some \<lparr>principalId = uid, granted = extractPermissions env hdrs\<rparr>)
          (ctx\<lparr>ctx_userId := Some uid,
               ctx_permissions := Some (extractPermissions env hdrs)\<rparr>) s
      else (Inl (TRPCError FORBIDDEN
                   (''Missing required permissions: '' @ join '', '' req)), s))"
  using assms extractUserId_nonempty [OF assms(2)]
  by (simp add: permissionProcedure_def permissionGuard_def hasPermission_iff
      runWithPermissions_def Let_def)

lemma request_headers_update:
  "request_headers (ctx\<lparr>ctx_userId := u, ctx_permissions := p\<rparr>) = request_headers ctx"
  by (simp add: request_headers_def)

lemma missing_permissions_empty_iff:
  "missing_permissions req perms = [] \<longleftrightarrow> set req \<subseteq> set perms"
  by (auto simp: missing_permissions_def filter_empty_conv)

lemma extractUserId_None_if:
  assumes "ctx_headers ctx = None
     \<or> (\<exists>es. ctx_headers ctx = Some (Iterable es)
           \<and> (\<forall>h. fromEntries es ''authorization'' \<noteq> Some (HString h)))
     \<or> (\<exists>es h. ctx_headers ctx = Some (Iterable es)
           \<and> fromEntries es ''authorization'' = Some (HString h)
           \<and> (\<forall>token. split_js (CHR '' '') h \<noteq> [''Bearer'', token]))
     \<or> (\<exists>es h token err. ctx_headers ctx = Some (Iterable es)
           \<and> fromEntries es ''authorization'' = Some (HString h)
           \<and> split_js (CHR '' '') h = [''Bearer'', token]
           \<and> jwt_verify env token (secret env) = Inl err)"
  shows "\<exists>hdrs. request_headers ctx = Inr hdrs \<and> extractUserId env hdrs = None"
proof -
  have none: "parseAuthHeader env (Some h) = None"
    if "(\<forall>token. split_js (CHR '' '') h \<noteq> [''Bearer'', token])
        \<or> (\<exists>token err. split_js (CHR '' '') h = [''Bearer'', token]
              \<and> jwt_verify env token (secret env) = Inl err)" for h
  proof (cases "parseAuthHeader env (Some h)")
    case None
    then show ?thesis .
  next
    case (Some payload)
    then obtain token where "split_js (CHR '' '') h = [''Bearer'', token]"
      and "jwt_verify env token (secret env) = Inr payload"
      using parseAuthHeader_Some_iff [of env "Some h" payload] by auto
    with that show ?thesis by auto
  qed
  from assms show ?thesis
  proof (elim disjE exE conjE)
    assume "ctx_headers ctx = None"
    then show ?thesis by (simp add: request_headers_def extractUserId_def)
  next
    fix es
    assume "ctx_headers ctx = Some (Iterable es)"
      and "\<forall>h. fromEntries es ''authorization'' \<noteq> Some (HString h)"
    then show ?thesis
      by (auto simp: request_headers_def extractUserId_def
          split: option.splits header_value.splits)
  next
    fix es h
    assume "ctx_headers ctx = Some (Iterable es)"
      and "fromEntries es ''authorization'' = Some (HString h)"
      and "\<forall>token. split_js (CHR '' '') h \<noteq> [''Bearer'', token]"
    then show ?thesis
      using none [of h] by (simp add: request_headers_def extractUserId_def)
  next
    fix es h token err
    assume "ctx_headers ctx = Some (Iterable es)"
      and "fromEntries es ''authorization'' = Some (HString h)"
      and "split_js (CHR '' '') h = [''Bearer'', token]"
      and "jwt_verify env token (secret env) = Inl err"
    then show ?thesis
      using none [of h] by (auto simp: request_headers_def extractUserId_def)
  qed
qed

text \<open>
  With headers that are absent or iterable, a call without a usable credential is
  rejected as unauthenticated by each middleware, whatever the handler.
\<close>

lemma bad_credential_rejected_when_iterable:
  assumes "ctx_headers ctx = None
     \<or> (\<exists>es. ctx_headers ctx = Some (Iterable es)
           \<and> (\<forall>h. fromEntries es ''authorization'' \<noteq> Some (HString h)))
     \<or> (\<exists>es h. ctx_headers ctx = Some (Iterable es)
           \<and> fromEntries es ''authorization'' = Some (HString h)
           \<and> (\<forall>token. split_js (CHR '' '') h \<noteq> [''Bearer'', token]))
     \<or> (\<exists>es h token err. ctx_headers ctx = Some (Iterable es)
           \<and> fromEntries es ''authorization'' = Some (HString h)
           \<and> split_js (CHR '' '') h = [''Bearer'', token]
           \<and> jwt_verify env token (secret env) = Inl err)"
  shows "protectedProcedure env current ctx next s
           = (Inl (TRPCError UNAUTHORIZED ''No authentication token provided''), s)
       \<and> protectedProcedure_plain env current ctx next s
           = (Inl (TRPCError UNAUTHORIZED ''No authentication token provided''), s)
       \<and> permissionProcedure env requiredPermissions current ctx next s
           = (Inl (TRPCError UNAUTHORIZED ''No authentication token provided''), s)"
proof -
  from extractUserId_None_if [OF assms] obtain hdrs
    where h: "request_headers ctx = Inr hdrs" "extractUserId env hdrs = None"
    by blast
  show ?thesis
    by (simp add: extractUserId_None_middlewares [OF h] no_token_def)
qed

lemma request_headers_sample: "request_headers (sample_ctx token) = Inr (sample_headers token)"
  by (simp add: request_headers_def sample_ctx_def sample_headers_def)

lemma authorization_sample:
  "sample_headers token = Some hs \<Longrightarrow>
     hs ''authorization'' = Some (HString (''Bearer '' @ token))"
  by (auto simp: sample_headers_def fromEntries_def)

lemma eval_u1:
  "extractUserId sample_env (sample_headers ''t-u1'') = Some ''u1''"
  "extractPermissions sample_env (sample_headers ''t-u1'') = [''user/create'']"
  by (simp_all add: sample_headers_def fromEntries_def extractUserId_def
      extractPermissions_def parseAuthHeader_def secret_def sample_env_def sample_verify_def)

lemma eval_root:
  "extractUserId sample_env (sample_headers ''t-root'') = Some ''root''"
  "extractPermissions sample_env (sample_headers ''t-root'') = [''user/create'', ''admin'']"
  by (simp_all add: sample_headers_def fromEntries_def extractUserId_def
      extractPermissions_def parseAuthHeader_def secret_def sample_env_def sample_verify_def)

section \<open>The claims\<close>

subsection \<open>Token decoder\<close>




text \<open>
  Claim C8. When the token of the call verifies and its payload has no
  \<open>permissions\<close> field, \<open>extractPermissions\<close> returns the empty list; and if the
  payload carries a non-empty user id, \<open>protectedProcedure\<close> runs the handler as that
  principal with no granted permissions.
\<close>
theorem omitted_permissions_default_to_empty:
  assumes "request_headers ctx = Inr (Some hs)"
    and "hs ''authorization'' = Some (HString h)"
    and "parseAuthHeader env (Some h) = Some payload"
    and "permissions payload = None"
  shows "extractPermissions env (Some hs) = []
       \<and> (\<forall>uid. userId payload = Some uid \<and> uid \<noteq> [] \<longrightarrow>
            protectedProcedure env current ctx next s
              = next (Some \<lparr>principalId = uid, granted = []\<rparr>)
                  (ctx\<lparr>ctx_userId := Some uid, ctx_permissions := Some []\<rparr>) s)"
proof -
  from assms have p: "extractPermissions env (Some hs) = []"
    by (simp add: extractPermissions_def)
  have "protectedProcedure env current ctx next s
              = next (Some \<lparr>principalId = uid, granted = []\<rparr>)
                  (ctx\<lparr>ctx_userId := Some uid, ctx_permissions := Some []\<rparr>) s"
    if "userId payload = Some uid" "uid \<noteq> []" for uid
  proof -
    from assms(2,3) that have "extractUserId env (Some hs) = Some uid"
      by (simp add: extractUserId_def)
    then show ?thesis
      by (simp add: protectedProcedure_authenticated [OF assms(1)] p)
  qed
  with p show ?thesis by blast
qed

theorem omitted_permissions_default_to_empty_witness:
  "extractPermissions sample_env (sample_headers ''t-u2'') = []
   \<and> protectedProcedure sample_env None (sample_ctx ''t-u2'') report_ambient ()
       = (Inr (Some \<lparr>principalId = ''u2'', granted = []\<rparr>), ())"
proof -
  have 1: "request_headers (sample_ctx ''t-u2'')
      = Inr (Some (fromEntries [(''authorization'', HString ''Bearer t-u2'')]))"
    by (simp add: request_headers_def sample_ctx_def)
  have 2: "fromEntries [(''authorization'', HString ''Bearer t-u2'')] ''authorization''
      = Some (HString ''Bearer t-u2'')"
    by (simp add: fromEntries_def)
  have 3: "parseAuthHeader sample_env (Some ''Bearer t-u2'')
      = Some \<lparr>userId = Some ''u2'', email = None, permissions = None\<rparr>"
    by (simp add: parseAuthHeader_def secret_def sample_env_def sample_verify_def)
  have 4: "permissions \<lparr>userId = Some ''u2'', email = None, permissions = None\<rparr> = None"
    by simp
  from omitted_permissions_default_to_empty [OF 1 2 3 4, of None report_ambient "()"]
  show ?thesis by (simp add: report_ambient_def sample_headers_def)
qed

text \<open>
  Claim C10. When the token verifies but its payload has no user id, or the empty
  string as user id, \<open>extractUserId\<close> returns nothing and each of the three
  middlewares fails with \<open>UNAUTHORIZED\<close> without calling the handler.
\<close>
theorem falsy_userId_rejected:
  assumes "request_headers ctx = Inr (Some hs)"
    and "hs ''authorization'' = Some (HString h)"
    and "parseAuthHeader env (Some h) = Some payload"
    and "userId payload = None \<or> userId payload = Some []"
  shows "extractUserId env (Some hs) = None
       \<and> protectedProcedure env current ctx next s
           = (Inl (TRPCError UNAUTHORIZED ''No authentication token provided''), s)
       \<and> protectedProcedure_plain env current ctx next s
           = (Inl (TRPCError UNAUTHORIZED ''No authentication token provided''), s)
       \<and> permissionProcedure env requiredPermissions current ctx next s
           = (Inl (TRPCError UNAUTHORIZED ''No authentication token provided''), s)"
proof -
  from assms(2-4) have n: "extractUserId env (Some hs) = None"
    by (auto simp: extractUserId_def)
  show ?thesis
    by (simp add: n extractUserId_None_middlewares [OF assms(1) n] no_token_def)
qed

theorem falsy_userId_rejected_witness:
  "parseAuthHeader sample_env (Some ''Bearer t-anon'')
      = Some \<lparr>userId = Some [], email = None, permissions = Some [''user/create'']\<rparr>
   \<and> protectedProcedure sample_env None (sample_ctx ''t-anon'') report_ambient ()
      = (Inl (TRPCError UNAUTHORIZED ''No authentication token provided''), ())
   \<and> permissionProcedure sample_env [''user/create''] None (sample_ctx ''t-anon'')
        report_ambient ()
      = (Inl (TRPCError UNAUTHORIZED ''No authentication token provided''), ())"
proof -
  have 1: "request_headers (sample_ctx ''t-anon'')
      = Inr (Some (fromEntries [(''authorization'', HString ''Bearer t-anon'')]))"
    by (simp add: request_headers_def sample_ctx_def)
  have 2: "fromEntries [(''authorization'', HString ''Bearer t-anon'')] ''authorization''
      = Some (HString ''Bearer t-anon'')"
    by (simp add: fromEntries_def)
  have 3: "parseAuthHeader sample_env (Some ''Bearer t-anon'')
      = Some \<lparr>userId = Some [], email = None, permissions = Some [''user/create'']\<rparr>"
    by (simp add: parseAuthHeader_def secret_def sample_env_def sample_verify_def)
  have 4: "userId \<lparr>userId = Some [], email = None, permissions = Some [''user/create'']\<rparr> = None
     \<or> userId \<lparr>userId = Some [], email = None, permissions = Some [''user/create'']\<rparr> = Some []"
    by simp
  from falsy_userId_rejected [OF 1 2 3 4, of None report_ambient "()" "[''user/create'']"] 3
  show ?thesis by simp
qed

subsection \<open>Entry middleware\<close>

text \<open>
  Claim C4, where the code departs from it. When \<^verbatim>\<open>ctx.headers\<close> is a plain object,
  as the Express and Next contexts of the repository pass it, each of the three
  middlewares ends with the \<^verbatim>\<open>TypeError\<close> of \<^verbatim>\<open>Object.fromEntries\<close>, whatever the
  headers say and whatever the handler: the call is not rejected as unauthenticated.
  The handler is not called and the state is the one the middleware was given.
\<close>
theorem plain_headers_object_throws:
  assumes "ctx_headers ctx = Some (PlainObject properties)"
  shows "protectedProcedure env current ctx next s = (Inl TypeError, s)
       \<and> protectedProcedure_plain env current ctx next s = (Inl TypeError, s)
       \<and> permissionProcedure env requiredPermissions current ctx next s = (Inl TypeError, s)"
proof -
  from assms have "request_headers ctx = Inl TypeError"
    by (simp add: request_headers_def)
  then show ?thesis
    by (simp add: request_headers_throws)
qed

theorem plain_headers_object_throws_witness:
  "protectedProcedure sample_env None express_ctx report_ambient () = (Inl TypeError, ())
   \<and> protectedProcedure sample_env None express_ctx report_ambient ()
       \<noteq> (Inl (TRPCError UNAUTHORIZED ''No authentication token provided''), ())
   \<and> protectedProcedure sample_env None bare_ctx report_ambient ()
       = (Inl (TRPCError UNAUTHORIZED ''No authentication token provided''), ())"
proof -
  have p: "ctx_headers express_ctx = Some (PlainObject [(''host'', HString ''localhost'')])"
    by (simp add: express_ctx_def)
  have b: "protectedProcedure sample_env None bare_ctx report_ambient ()
       = (Inl (TRPCError UNAUTHORIZED ''No authentication token provided''), ())"
    by (simp add: protectedProcedure_def request_headers_def bare_ctx_def fromEntries_def
        extractUserId_def no_token_def)
  from plain_headers_object_throws [OF p, of sample_env None report_ambient "()" "[]"] b
  show ?thesis by simp
qed

text \<open>
  Claim C5, as the code has it. For a call whose headers are an iterable of entries
  and whose credential decodes to a user id, the \<open>protectedProcedure\<close> of the second
  version runs the handler inside the ambient context made of that user id and the
  decoded permissions, and returns what the handler returns, value or error, with the
  state the handler leaves. \<open>permissionProcedure\<close> does the same when every required
  permission is granted. The \<open>protectedProcedure\<close> of the first version also returns
  what the handler returns, but runs it in the ambient context the middleware itself
  runs in: it establishes none.
\<close>
theorem authenticated_call_runs_handler:
  assumes "ctx_headers ctx = Some (Iterable entries)"
    and "extractUserId env (Some (fromEntries entries)) = Some uid"
    and "extractPermissions env (Some (fromEntries entries)) = perms"
  shows "protectedProcedure env current ctx next s
           = next (Some \<lparr>principalId = uid, granted = perms\<rparr>)
               (ctx\<lparr>ctx_userId := Some uid, ctx_permissions := Some perms\<rparr>) s
       \<and> (set requiredPermissions \<subseteq> set perms \<longrightarrow>
            permissionProcedure env requiredPermissions current ctx next s
              = next (Some \<lparr>principalId = uid, granted = perms\<rparr>)
                  (ctx\<lparr>ctx_userId := Some uid, ctx_permissions := Some perms\<rparr>) s)
       \<and> protectedProcedure_plain env current ctx next s
           = next current (ctx\<lparr>ctx_userId := Some uid\<rparr>) s"
proof -
  from assms(1) have h: "request_headers ctx = Inr (Some (fromEntries entries))"
    by (simp add: request_headers_def)
  from assms(3) show ?thesis
    by (simp add: protectedProcedure_authenticated [OF h assms(2)]
        permissionProcedure_authenticated [OF h assms(2)]
        protectedProcedure_plain_authenticated [OF h assms(2)])
qed

theorem authenticated_call_runs_handler_witness:
  "protectedProcedure sample_env None (sample_ctx ''t-u1'') report_ambient ()
     = (Inr (Some \<lparr>principalId = ''u1'', granted = [''user/create'']\<rparr>), ())
   \<and> permissionProcedure sample_env [''user/create''] None (sample_ctx ''t-u1'')
       report_ambient ()
     = (Inr (Some \<lparr>principalId = ''u1'', granted = [''user/create'']\<rparr>), ())
   \<and> protectedProcedure_plain sample_env None (sample_ctx ''t-u1'') report_ambient ()
     = (Inr None, ())"
proof -
  have 1: "ctx_headers (sample_ctx ''t-u1'')
      = Some (Iterable [(''authorization'', HString ''Bearer t-u1'')])"
    by (simp add: sample_ctx_def)
  have 2: "extractUserId sample_env
      (Some (fromEntries [(''authorization'', HString ''Bearer t-u1'')])) = Some ''u1''"
    using eval_u1(1) by (simp add: sample_headers_def)
  have 3: "extractPermissions sample_env
      (Some (fromEntries [(''authorization'', HString ''Bearer t-u1'')])) = [''user/create'']"
    using eval_u1(2) by (simp add: sample_headers_def)
  from authenticated_call_runs_handler [OF 1 2 3,
      of None report_ambient "()" "[''user/create'']"]
  show ?thesis by (simp add: report_ambient_def)
qed

text \<open>
  The first version's \<open>protectedProcedure\<close> does not establish the ambient context:
  the headers are iterable, the credential decodes to principal \<^verbatim>\<open>u1\<close> with
  permission \<^verbatim>\<open>user/create\<close>, and the handler, which reports the ambient context it
  runs in, finds none.
\<close>
theorem plain_procedure_no_ambient_counterexample:
  "request_headers (sample_ctx ''t-u1'') = Inr (sample_headers ''t-u1'')
   \<and> extractUserId sample_env (sample_headers ''t-u1'') = Some ''u1''
   \<and> extractPermissions sample_env (sample_headers ''t-u1'') = [''user/create'']
   \<and> protectedProcedure_plain sample_env None (sample_ctx ''t-u1'') report_ambient ()
       = (Inr None, ())
   \<and> protectedProcedure_plain sample_env None (sample_ctx ''t-u1'') report_ambient ()
       \<noteq> (Inr (Some \<lparr>principalId = ''u1'', granted = [''user/create'']\<rparr>), ())"
  by (simp add: request_headers_sample eval_u1 protectedProcedure_plain_def
      report_ambient_def)

subsection \<open>Permission check\<close>

text \<open>
  Claim C2. The permission check of \<open>permissionProcedure\<close> is a conjunction. For a
  call with a decoded credential, the middleware runs the handler, inside the context
  of that principal and those permissions, if every required permission is among the
  granted ones, and fails with \<open>FORBIDDEN\<close> without running it otherwise; so it hands
  every handler its call exactly when every required permission is granted. In
  particular it runs the handler when the granted permissions are a strict superset
  of the required ones.
\<close>
theorem permissionProcedure_conjunctive:
  assumes "request_headers ctx = Inr hdrs"
    and "extractUserId env hdrs = Some uid"
    and "extractPermissions env hdrs = perms"
  shows "permissionProcedure env requiredPermissions current ctx
             (next :: ('z, 's, 'r) handler) s
           = (if \<forall>perm\<in>set requiredPermissions. perm \<in> set perms then
                next (Some \<lparr>principalId = uid, granted = perms\<rparr>)
                  (ctx\<lparr>ctx_userId := Some uid, ctx_permissions := Some perms\<rparr>) s
              else (Inl (TRPCError FORBIDDEN
                     (''Missing required permissions: '' @ join '', '' requiredPermissions)),
                    s))
       \<and> ((\<forall>(handler :: ('z, 's, 'r) handler) state.
              permissionProcedure env requiredPermissions current ctx handler state
                = handler (Some \<lparr>principalId = uid, granted = perms\<rparr>)
                    (ctx\<lparr>ctx_userId := Some uid, ctx_permissions := Some perms\<rparr>) state)
            \<longleftrightarrow> (\<forall>perm\<in>set requiredPermissions. perm \<in> set perms))
       \<and> (set requiredPermissions \<subset> set perms \<longrightarrow>
            permissionProcedure env requiredPermissions current ctx next s
              = next (Some \<lparr>principalId = uid, granted = perms\<rparr>)
                  (ctx\<lparr>ctx_userId := Some uid, ctx_permissions := Some perms\<rparr>) s)"
proof -
  let ?all = "\<forall>perm\<in>set requiredPermissions. perm \<in> set perms"
  let ?amb = "Some \<lparr>principalId = uid, granted = perms\<rparr>"
  let ?ctx = "ctx\<lparr>ctx_userId := Some uid, ctx_permissions := Some perms\<rparr>"
  let ?denied = "Inl (TRPCError FORBIDDEN
      (''Missing required permissions: '' @ join '', '' requiredPermissions))"
  have sub: "set requiredPermissions \<subseteq> set perms \<longleftrightarrow> ?all"
    by auto
  have eq: "permissionProcedure env requiredPermissions current ctx handler state
      = (if ?all then handler ?amb ?ctx state else (?denied, state))"
    for handler :: "('z, 's, 'r) handler" and state
    using assms(3) sub
    by (simp add: permissionProcedure_authenticated [OF assms(1,2)])
  have iff: "(\<forall>(handler :: ('z, 's, 'r) handler) state.
      permissionProcedure env requiredPermissions current ctx handler state
        = handler ?amb ?ctx state) \<longleftrightarrow> ?all"
  proof
    assume run: "\<forall>(handler :: ('z, 's, 'r) handler) state.
      permissionProcedure env requiredPermissions current ctx handler state
        = handler ?amb ?ctx state"
    show ?all
    proof (rule ccontr)
      assume n: "\<not> ?all"
      define refuse :: "('z, 's, 'r) handler"
        where "refuse = (\<lambda>cur c st. (Inl GuardUnauthenticated, st))"
      from n eq [of refuse s]
      have "permissionProcedure env requiredPermissions current ctx refuse s = (?denied, s)"
        by (simp only: if_False)
      moreover from run
      have "permissionProcedure env requiredPermissions current ctx refuse s
          = refuse ?amb ?ctx s"
        by blast
      ultimately show False by (simp add: refuse_def)
    qed
  next
    assume ?all
    then show "\<forall>(handler :: ('z, 's, 'r) handler) state.
      permissionProcedure env requiredPermissions current ctx handler state
        = handler ?amb ?ctx state"
      using eq by simp
  qed
  have strict: "set requiredPermissions \<subset> set perms \<longrightarrow>
      permissionProcedure env requiredPermissions current ctx next s = next ?amb ?ctx s"
    using eq [of "next" s] by auto
  from eq [of "next" s] iff strict show ?thesis by blast
qed

theorem permissionProcedure_conjunctive_witness:
  "permissionProcedure sample_env [''user/create''] None (sample_ctx ''t-root'')
        report_ambient ()
      = (Inr (Some \<lparr>principalId = ''root'', granted = [''user/create'', ''admin'']\<rparr>), ())
   \<and> permissionProcedure sample_env [''user/create'', ''admin''] None (sample_ctx ''t-u1'')
        report_ambient ()
      = (Inl (TRPCError FORBIDDEN ''Missing required permissions: user/create, admin''), ())
   \<and> permissionProcedure sample_env [''user/create'', ''admin''] None (sample_ctx ''t-root'')
        report_ambient ()
      = (Inr (Some \<lparr>principalId = ''root'', granted = [''user/create'', ''admin'']\<rparr>), ())"
proof -
  note root = permissionProcedure_conjunctive
      [OF request_headers_sample eval_root, of _ None report_ambient "()"]
  note u1 = permissionProcedure_conjunctive
      [OF request_headers_sample eval_u1, of _ None report_ambient "()"]
  from root [of "[''user/create'']", THEN conjunct1]
  have "permissionProcedure sample_env [''user/create''] None (sample_ctx ''t-root'')
        report_ambient ()
      = (Inr (Some \<lparr>principalId = ''root'', granted = [''user/create'', ''admin'']\<rparr>), ())"
    by (simp add: report_ambient_def)
  moreover from u1 [of "[''user/create'', ''admin'']", THEN conjunct1]
  have "permissionProcedure sample_env [''user/create'', ''admin''] None (sample_ctx ''t-u1'')
        report_ambient ()
      = (Inl (TRPCError FORBIDDEN ''Missing required permissions: user/create, admin''), ())"
    by simp
  moreover from root [of "[''user/create'', ''admin'']", THEN conjunct1]
  have "permissionProcedure sample_env [''user/create'', ''admin''] None (sample_ctx ''t-root'')
        report_ambient ()
      = (Inr (Some \<lparr>principalId = ''root'', granted = [''user/create'', ''admin'']\<rparr>), ())"
    by (simp add: report_ambient_def)
  ultimately show ?thesis by blast
qed

text \<open>
  Claim C3, as the code has it. For a call with a valid credential that lacks at least
  one required permission, \<open>permissionProcedure\<close> fails with \<open>FORBIDDEN\<close> before the
  handler runs (the state is the one it was given), and the message is
  \<^verbatim>\<open>Missing required permissions: \<close> followed by the whole list of required
  permissions joined by a comma and a space: it names every required permission,
  missing or held.
\<close>
theorem permissionProcedure_forbidden_lists_required:
  assumes "request_headers ctx = Inr hdrs"
    and "extractUserId env hdrs = Some uid"
    and "missing_permissions requiredPermissions (extractPermissions env hdrs) \<noteq> []"
  shows "permissionProcedure env requiredPermissions current ctx next s
           = (Inl (TRPCError FORBIDDEN
                (''Missing required permissions: '' @ join '', '' requiredPermissions)), s)
         \<and> (\<forall>perm\<in>set requiredPermissions.
               names (''Missing required permissions: '' @ join '', '' requiredPermissions)
                 perm)"
proof
  from assms(3)
  have "\<not> set requiredPermissions \<subseteq> set (extractPermissions env hdrs)"
    by (simp add: missing_permissions_empty_iff)
  then show "permissionProcedure env requiredPermissions current ctx next s
           = (Inl (TRPCError FORBIDDEN
                (''Missing required permissions: '' @ join '', '' requiredPermissions)), s)"
    by (simp add: permissionProcedure_authenticated [OF assms(1,2)])
next
  show "\<forall>perm\<in>set requiredPermissions.
          names (''Missing required permissions: '' @ join '', '' requiredPermissions) perm"
    using names_join by blast
qed

theorem permissionProcedure_forbidden_lists_required_witness:
  "permissionProcedure sample_env [''admin'', ''user/create''] None (sample_ctx ''t-u1'')
      report_ambient ()
     = (Inl (TRPCError FORBIDDEN ''Missing required permissions: admin, user/create''), ())
   \<and> names ''Missing required permissions: admin, user/create'' ''admin''"
proof -
  have m: "missing_permissions [''admin'', ''user/create'']
      (extractPermissions sample_env (sample_headers ''t-u1'')) \<noteq> []"
    by (simp add: eval_u1 missing_permissions_def)
  from permissionProcedure_forbidden_lists_required
    [OF request_headers_sample eval_u1(1) m, of None report_ambient "()"]
  show ?thesis by simp
qed

text \<open>
  The message does not name the missing permissions only. The caller holds
  \<^verbatim>\<open>user/create\<close> and lacks \<^verbatim>\<open>admin\<close>; the only missing permission is
  \<^verbatim>\<open>admin\<close>, and the message names \<^verbatim>\<open>user/create\<close> as well.
\<close>
theorem message_names_held_permission_counterexample:
  "request_headers (sample_ctx ''t-u1'') = Inr (sample_headers ''t-u1'')
   \<and> permissionProcedure sample_env [''user/create'', ''admin''] None (sample_ctx ''t-u1'')
      report_ambient ()
     = (Inl (TRPCError FORBIDDEN ''Missing required permissions: user/create, admin''), ())
   \<and> names ''Missing required permissions: user/create, admin'' ''user/create''
   \<and> missing_permissions [''user/create'', ''admin'']
        (extractPermissions sample_env (sample_headers ''t-u1'')) = [''admin'']"
  by (simp add: permissionProcedure_def request_headers_sample permissionGuard_def
      hasPermission_def eval_u1 missing_permissions_def)

text \<open>
  Claim C9. Running the permission check of \<open>permissionProcedure\<close> a second time for
  the same call, from inside the first, with the context object and the state the
  first hands on, has the outcome of running it once. For a call with a decoded
  credential both checks pass when every required permission is granted, and the
  handler runs as after one check; otherwise the first fails with \<open>FORBIDDEN\<close> and
  the required list in the message, as a single check does.
\<close>
theorem permission_check_twice_same_outcome:
  "permissionProcedure env requiredPermissions current ctx
       (\<lambda>cur checked. permissionProcedure env requiredPermissions cur checked next) s
     = permissionProcedure env requiredPermissions current ctx next s
   \<and> (request_headers ctx = Inr hdrs \<and> extractUserId env hdrs = Some uid
        \<and> extractPermissions env hdrs = perms \<longrightarrow>
      permissionProcedure env requiredPermissions current ctx
          (\<lambda>cur checked. permissionProcedure env requiredPermissions cur checked next) s
        = (if \<forall>perm\<in>set requiredPermissions. perm \<in> set perms then
             next (Some \<lparr>principalId = uid, granted = perms\<rparr>)
               (ctx\<lparr>ctx_userId := Some uid, ctx_permissions := Some perms\<rparr>) s
           else (Inl (TRPCError FORBIDDEN
                  (''Missing required permissions: '' @ join '', '' requiredPermissions)),
                 s)))"
proof -
  let ?twice = "permissionProcedure env requiredPermissions current ctx
       (\<lambda>cur checked. permissionProcedure env requiredPermissions cur checked next) s"
  let ?once = "permissionProcedure env requiredPermissions current ctx next s"
  have same: "?twice = ?once"
  proof (cases "request_headers ctx")
    case (Inl thrown)
    then show ?thesis by (simp add: request_headers_throws)
  next
    case (Inr hdrs')
    show ?thesis
    proof (cases "extractUserId env hdrs'")
      case None
      with Inr show ?thesis by (simp add: extractUserId_None_middlewares)
    next
      case (Some uid')
      let ?p = "extractPermissions env hdrs'"
      let ?c = "ctx\<lparr>ctx_userId := Some uid', ctx_permissions := Some ?p\<rparr>"
      have inner: "request_headers ?c = Inr hdrs'"
        using Inr by (simp add: request_headers_update)
      show ?thesis
        by (simp add: permissionProcedure_authenticated [OF Inr Some]
            permissionProcedure_authenticated [OF inner Some])
    qed
  qed
  have "?once = (if \<forall>perm\<in>set requiredPermissions. perm \<in> set perms then
             next (Some \<lparr>principalId = uid, granted = perms\<rparr>)
               (ctx\<lparr>ctx_userId := Some uid, ctx_permissions := Some perms\<rparr>) s
           else (Inl (TRPCError FORBIDDEN
                  (''Missing required permissions: '' @ join '', '' requiredPermissions)),
                 s))"
    if "request_headers ctx = Inr hdrs" "extractUserId env hdrs = Some uid"
      "extractPermissions env hdrs = perms"
  proof -
    have "set requiredPermissions \<subseteq> set perms
        \<longleftrightarrow> (\<forall>perm\<in>set requiredPermissions. perm \<in> set perms)"
      by auto
    with that(3) show ?thesis
      by (simp add: permissionProcedure_authenticated [OF that(1,2)])
  qed
  with same show ?thesis by simp
qed

theorem permission_check_twice_same_outcome_witness:
  "permissionProcedure sample_env [''user/create'', ''admin''] None (sample_ctx ''t-u1'')
       (\<lambda>cur checked. permissionProcedure sample_env [''user/create'', ''admin''] cur checked
          report_ambient) ()
     = (Inl (TRPCError FORBIDDEN ''Missing required permissions: user/create, admin''), ())
   \<and> permissionProcedure sample_env [''user/create''] None (sample_ctx ''t-u1'')
       (\<lambda>cur checked. permissionProcedure sample_env [''user/create''] cur checked
          report_ambient) ()
     = (Inr (Some \<lparr>principalId = ''u1'', granted = [''user/create'']\<rparr>), ())"
proof -
  note t = permission_check_twice_same_outcome
    [of sample_env _ None "sample_ctx ''t-u1''" report_ambient "()"
      "sample_headers ''t-u1''" "''u1''" "[''user/create'']", THEN conjunct2, THEN mp,
      OF conjI [OF request_headers_sample conjI [OF eval_u1]]]
  from t [of "[''user/create'', ''admin'']"] t [of "[''user/create'']"]
  show ?thesis by (simp add: report_ambient_def)
qed

subsection \<open>Guard before mutation\<close>

text \<open>
  Claim C6. Each method of \<open>UserDAO\<close> that calls the guard calls it first: whatever
  the guard and whatever the database operations are, when the guard fails the method
  returns that failure and the database is the one it was given. The same holds for a
  handler behind \<open>permissionProcedure\<close>: when the permission check fails, the failure
  is returned and the state is unchanged.
\<close>
theorem guard_failure_before_any_mutation:
  "(guard current [''user/create''] = Inl err \<longrightarrow>
      UserDAO_create guard prisma current uname uemail db = (Inl err, db))
   \<and> (guard current [''user/read''] = Inl err \<longrightarrow>
      UserDAO_findAll guard prisma current db = (Inl err, db))
   \<and> (guard current [''user/write''] = Inl err \<longrightarrow>
      UserDAO_update guard prisma current ident data db = (Inl err, db))
   \<and> (guard current [''user/delete''] = Inl err \<longrightarrow>
      UserDAO_delete guard prisma current ident db = (Inl err, db))
   \<and> (request_headers ctx = Inr hdrs \<and> extractUserId env hdrs = Some uid
        \<and> permissionGuard requiredPermissions (extractPermissions env hdrs) = Inl err \<longrightarrow>
      permissionProcedure env requiredPermissions current ctx next s = (Inl err, s))"
proof -
  have "permissionProcedure env requiredPermissions current ctx next s = (Inl err, s)"
    if "request_headers ctx = Inr hdrs" and "extractUserId env hdrs = Some uid"
      and "permissionGuard requiredPermissions (extractPermissions env hdrs) = Inl err"
    using that extractUserId_nonempty [OF that(2)]
    by (simp add: permissionProcedure_def Let_def)
  then show ?thesis
    by (simp add: UserDAO_create_def UserDAO_findAll_def UserDAO_update_def
        UserDAO_delete_def)
qed

theorem guard_failure_before_any_mutation_witness:
  "UserDAO_delete checkRequiredPermissions table_prisma (Some reader) ''bob'' [bob]
     = (Inl (GuardAccessDenied [''user/delete'']), [bob])
   \<and> UserDAO_create checkRequiredPermissions table_prisma (Some reader)
       ''eve'' ''eve@example.com'' [bob]
     = (Inl (GuardAccessDenied [''user/create'']), [bob])
   \<and> UserDAO_delete checkRequiredPermissions table_prisma
       (Some (reader\<lparr>granted := [''user/delete'']\<rparr>)) ''bob'' [bob]
     = (Inr (Some bob), [])"
proof -
  have d: "checkRequiredPermissions (Some reader) [''user/delete'']
      = Inl (GuardAccessDenied [''user/delete''])"
    by (simp add: checkRequiredPermissions_def reader_def)
  have c: "checkRequiredPermissions (Some reader) [''user/create'']
      = Inl (GuardAccessDenied [''user/create''])"
    by (simp add: checkRequiredPermissions_def reader_def)
  have ok: "UserDAO_delete checkRequiredPermissions table_prisma
       (Some (reader\<lparr>granted := [''user/delete'']\<rparr>)) ''bob'' [bob]
     = (Inr (Some bob), [])"
    by (simp add: UserDAO_delete_def checkRequiredPermissions_def reader_def
        table_prisma_def bob_def)
  from guard_failure_before_any_mutation
    [of checkRequiredPermissions "Some reader" "GuardAccessDenied [''user/delete'']"
      table_prisma "''eve''" "''eve@example.com''" "[bob]" "''bob''"
      "\<lparr>data_name = None, data_email = None\<rparr>" "sample_ctx ''t-u1''" "sample_headers ''t-u1''" sample_env "''u1''"
      "[]" report_ambient "()"] d
  have "UserDAO_delete checkRequiredPermissions table_prisma (Some reader) ''bob'' [bob]
     = (Inl (GuardAccessDenied [''user/delete'']), [bob])"
    by blast
  moreover from guard_failure_before_any_mutation
    [of checkRequiredPermissions "Some reader" "GuardAccessDenied [''user/create'']"
      table_prisma "''eve''" "''eve@example.com''" "[bob]" "''bob''"
      "\<lparr>data_name = None, data_email = None\<rparr>" "sample_ctx ''t-u1''" "sample_headers ''t-u1''" sample_env "''u1''"
      "[]" report_ambient "()"] c
  have "UserDAO_create checkRequiredPermissions table_prisma (Some reader)
       ''eve'' ''eve@example.com'' [bob]
     = (Inl (GuardAccessDenied [''user/create'']), [bob])"
    by blast
  ultimately show ?thesis using ok by blast
qed

end
